theory Spec2Isabelle
  imports Complex_Main "HOL-Library.Monad_Syntax"
begin

section \<open>Python bindings for CUDA memory and the font overlay (PyCUDA.cpp)\<close>

text \<open>
  A shallow embedding of \<^verbatim>\<open>python/bindings/PyCUDA.cpp\<close>. The allocation,
  registration and release functions, and \<^verbatim>\<open>PyFont_New\<close>, \<^verbatim>\<open>PyFont_Init\<close> and
  \<^verbatim>\<open>PyFont_Overlay\<close>, each become a HOL function of the same name. What lies outside
  the file (the CUDA runtime, the CPython object allocator, the font renderer,
  \<^verbatim>\<open>PyCUDA_GetPointer\<close>) is gathered in a record \<open>platform\<close> that the functions take
  as their first argument. Calls of the CUDA primitives and of the renderer are appended to
  a trace, so that "the primitive is invoked" is a statement about the trace. Console output
  (\<^verbatim>\<open>printf\<close>), reference counts, \<^verbatim>\<open>PyFont_Dealloc\<close> and the registration of the
  module's functions and types are not part of the model.
\<close>

subsection \<open>Pointers, capsules and Python objects\<close>

type_synonym ptr = nat

definition NULL :: ptr where
  "NULL = 0"

text \<open>
  The two capsule names are macros of the header \<^verbatim>\<open>PyCUDA.h\<close>; each is a tag here.
  A capsule destructor is one of the two release callbacks of the file.
\<close>

datatype capsule_name = CUDA_MALLOC_MEMORY_CAPSULE | CUDA_MAPPED_MEMORY_CAPSULE

datatype destructor = FreeMalloc | FreeMapped

record capsule =
  cap_pointer :: ptr
  cap_name :: capsule_name
  cap_destructor :: "destructor option"

text \<open>
  A floating-point value, of a C \<^verbatim>\<open>double\<close> or a C \<^verbatim>\<open>float\<close>: a finite value, taken
  as the real number it denotes, an infinity or a NaN. A Python float holds a
  \<^verbatim>\<open>double\<close>.
\<close>

datatype fpval = Finite real | PosInf | NegInf | NaN

datatype pyobj =
    PyNone
  | PyLong int
  | PyFloat fpval
  | PyUnicode string
  | PyTuple "pyobj list"
  | PyCapsule capsule

text \<open>\<^verbatim>\<open>float4\<close>: four float channels.\<close>

record float4 =
  f4_x :: fpval
  f4_y :: fpval
  f4_z :: fpval
  f4_w :: fpval

definition make_float4 :: "fpval \<Rightarrow> fpval \<Rightarrow> fpval \<Rightarrow> fpval \<Rightarrow> float4" where
  "make_float4 a b c d = \<lparr>f4_x = a, f4_y = b, f4_z = c, f4_w = d\<rparr>"

subsection \<open>Errors\<close>

text \<open>
  One constructor for each place where the file returns \<^verbatim>\<open>NULL\<close> (or \<open>-1\<close>) with a
  Python error set. \<open>exc_type\<close> is the exception class handed to
  \<^verbatim>\<open>PyErr_SetString\<close> and \<open>message\<close> the text after the common prefix
  \<^verbatim>\<open>LOG_PY_UTILS\<close>. When an \<^verbatim>\<open>INIT_COLOR\<close> of \<^verbatim>\<open>PyFont_New\<close> fails, the file
  sets no error of its own: the error is the one \<^verbatim>\<open>Py_BuildValue\<close> left
  (\<open>PyExc_FromBuildValue\<close>, with no message of the file).
\<close>

datatype error =
    RegisterMemory_NullPointers
  | RegisterMemory_CapsuleFailed
  | Malloc_ParseFailed
  | Malloc_SizeNotPositive
  | Malloc_Failed
  | RegisterMapped_NullPointers
  | RegisterMapped_Mismatch
  | RegisterMapped_CapsuleFailed
  | AllocMapped_ParseFailed
  | AllocMapped_SizeNotPositive
  | AllocMapped_Failed
  | FontNew_AllocFailed
  | FontNew_BuildValueFailed
  | FontInit_ParseFailed
  | FontInit_CreateFailed
  | Overlay_InvalidInstance
  | Overlay_ParseFailed
  | Overlay_ColorNotTuple
  | Overlay_ColorParseFailed
  | Overlay_BadDimensions
  | Overlay_InputPointer
  | Overlay_OutputPointer

datatype exc = PyExc_Exception | PyExc_MemoryError | PyExc_FromBuildValue

fun exc_type :: "error \<Rightarrow> exc" where
  "exc_type FontNew_AllocFailed = PyExc_MemoryError"
| "exc_type FontNew_BuildValueFailed = PyExc_FromBuildValue"
| "exc_type _ = PyExc_Exception"

fun message :: "error \<Rightarrow> string" where
  "message RegisterMemory_NullPointers = ''RegisterMemory() was provided NULL memory pointers''"
| "message RegisterMemory_CapsuleFailed = ''RegisterMemory() failed to create PyCapsule container''"
| "message Malloc_ParseFailed = ''cudaMalloc() failed to parse size argument''"
| "message Malloc_SizeNotPositive = ''cudaMalloc() requested size is negative or zero''"
| "message Malloc_Failed = ''cudaMalloc() failed''"
| "message RegisterMapped_NullPointers = ''RegisterMappedMemory() was provided NULL memory pointers''"
| "message RegisterMapped_Mismatch = ''RegisterMappedMemory() pointers don't match''"
| "message RegisterMapped_CapsuleFailed = ''RegisterMappedMemory() failed to create PyCapsule container''"
| "message AllocMapped_ParseFailed = ''cudaAllocMapped() failed to parse size argument''"
| "message AllocMapped_SizeNotPositive = ''cudaAllocMapped() requested size is negative or zero''"
| "message AllocMapped_Failed = ''cudaAllocMapped() failed''"
| "message FontNew_AllocFailed = ''cudaFont tp_alloc() failed to allocate a new object''"
| "message FontNew_BuildValueFailed = ''''"
| "message FontInit_ParseFailed = ''pyFont.__init()__ failed to parse args tuple''"
| "message FontInit_CreateFailed = ''failed to create cudaFont object''"
| "message Overlay_InvalidInstance = ''cudaFont invalid object instance''"
| "message Overlay_ParseFailed = ''cudaFont.Overlay() failed to parse args tuple''"
| "message Overlay_ColorNotTuple = ''cudaFont.Overlay() color argument isn't a valid tuple''"
| "message Overlay_ColorParseFailed = ''cudaFont.Overlay() failed to parse color tuple''"
| "message Overlay_BadDimensions = ''cudaFont.Overlay() image dimensions are invalid''"
| "message Overlay_InputPointer = ''cudaFont.Overlay() failed to get input image pointer from PyCapsule container''"
| "message Overlay_OutputPointer = ''cudaFont.Overlay() failed to get output image pointer from PyCapsule container''"

subsection \<open>The platform and the trace\<close>

text \<open>
  \<^verbatim>\<open>cudaError_t\<close> is the CUDA runtime's status enumeration, read as its integer value;
  \<^verbatim>\<open>cudaSuccess\<close> is 0, every other value is an error.
\<close>

type_synonym cudaError_t = int

definition cudaSuccess :: cudaError_t where
  "cudaSuccess = 0"

text \<open>
  What the file calls and does not define:
  \<^item> \<open>cudaMalloc env sz\<close>: the status \<^verbatim>\<open>cudaMalloc(&gpuPtr, size)\<close> returns and the
    value of \<^verbatim>\<open>gpuPtr\<close> after the call;
  \<^item> \<open>cudaAllocMapped env sz\<close>: the boolean \<^verbatim>\<open>cudaAllocMapped(&cpuPtr, &gpuPtr, size)\<close>
    returns (true on success) and the two pointers after the call;
  \<^item> \<open>capsule_alloc env\<close>: whether CPython can allocate a capsule object;
  \<^item> \<open>tp_alloc env\<close>: whether \<^verbatim>\<open>type->tp_alloc\<close> returns an object;
  \<^item> \<open>Py_BuildValue_ok env k\<close>: whether the \<open>k\<close>-th \<^verbatim>\<open>Py_BuildValue\<close> of
    \<^verbatim>\<open>PyFont_New\<close> returns an object;
  \<^item> \<open>cudaFont_Create env bitmap\<close>: the pointer \<^verbatim>\<open>cudaFont::Create(bitmap)\<close> returns;
  \<^item> \<open>PyCUDA_GetPointer env obj\<close>: the data pointer of a Python object, \<open>NULL\<close> when
    there is none;
  \<^item> \<open>cudaFont_RenderOverlay env ...\<close>: the boolean the renderer returns;
  \<^item> \<open>PyLong_AsDouble env n\<close>: the C \<^verbatim>\<open>double\<close> CPython converts the Python integer
    \<open>n\<close> to, or \<open>None\<close> when the conversion raises \<^verbatim>\<open>OverflowError\<close> (an integer
    beyond the range of a \<^verbatim>\<open>double\<close>);
  \<^item> \<open>float_cast env d\<close>: the C \<^verbatim>\<open>float\<close> the cast \<^verbatim>\<open>(float) d\<close> yields for
    the \<^verbatim>\<open>double\<close> \<open>d\<close>.
\<close>

record platform =
  cudaMalloc :: "int \<Rightarrow> cudaError_t \<times> ptr"
  cudaAllocMapped :: "int \<Rightarrow> bool \<times> ptr \<times> ptr"
  capsule_alloc :: bool
  tp_alloc :: bool
  Py_BuildValue_ok :: "nat \<Rightarrow> bool"
  cudaFont_Create :: "string \<Rightarrow> ptr"
  PyCUDA_GetPointer :: "pyobj \<Rightarrow> ptr"
  cudaFont_RenderOverlay :: "ptr \<Rightarrow> ptr \<Rightarrow> ptr \<Rightarrow> int \<Rightarrow> int \<Rightarrow> string \<Rightarrow> int \<Rightarrow> int \<Rightarrow> float4 \<Rightarrow> bool"
  PyLong_AsDouble :: "int \<Rightarrow> fpval option"
  float_cast :: "fpval \<Rightarrow> fpval"

datatype call =
    CudaMalloc int
  | CudaFree ptr
  | CudaAllocMapped int
  | CudaFreeHost ptr
  | RenderOverlay ptr ptr ptr int int string int int float4

type_synonym trace = "call list"

subsection \<open>CPython: capsules and argument parsing\<close>

text \<open>
  \<^verbatim>\<open>PyCapsule_New\<close> refuses a null pointer and fails when the object cannot be
  allocated. \<^verbatim>\<open>PyCapsule_GetPointer\<close> returns the stored pointer when the name is the
  capsule's, and \<^verbatim>\<open>NULL\<close> otherwise. Neither writes to an existing capsule.
\<close>

definition PyCapsule_New :: "platform \<Rightarrow> ptr \<Rightarrow> capsule_name \<Rightarrow> destructor option \<Rightarrow> capsule option" where
  "PyCapsule_New env p n d =
     (if p = NULL then None
      else if capsule_alloc env
        then Some \<lparr>cap_pointer = p, cap_name = n, cap_destructor = d\<rparr>
        else None)"

definition PyCapsule_GetPointer :: "capsule \<Rightarrow> capsule_name \<Rightarrow> ptr" where
  "PyCapsule_GetPointer c n = (if cap_name c = n then cap_pointer c else NULL)"

text \<open>
  The format units the file uses. \<^verbatim>\<open>"i"\<close> takes a Python integer that fits a C
  \<^verbatim>\<open>int\<close>, \<^verbatim>\<open>"s"\<close> a string with no null character, \<^verbatim>\<open>"O"\<close> any object.
  \<^verbatim>\<open>"f"\<close> takes a Python float, or a Python integer that converts to a
  \<^verbatim>\<open>double\<close> (the conversion of an integer beyond the range of a \<^verbatim>\<open>double\<close> raises
  \<^verbatim>\<open>OverflowError\<close> and the unit fails); it stores the \<^verbatim>\<open>double\<close> cast to
  \<^verbatim>\<open>float\<close>. No other object of \<open>pyobj\<close> converts to a float.
\<close>

definition INT_MIN :: int where
  "INT_MIN = - (2 ^ 31)"

definition INT_MAX :: int where
  "INT_MAX = 2 ^ 31 - 1"

fun convert_i :: "pyobj \<Rightarrow> int option" where
  "convert_i (PyLong n) = (if INT_MIN \<le> n \<and> n \<le> INT_MAX then Some n else None)"
| "convert_i _ = None"

fun convert_f :: "platform \<Rightarrow> pyobj \<Rightarrow> fpval option" where
  "convert_f env (PyFloat d) = Some (float_cast env d)"
| "convert_f env (PyLong n) =
     (case PyLong_AsDouble env n of None \<Rightarrow> None | Some d \<Rightarrow> Some (float_cast env d))"
| "convert_f env _ = None"

fun convert_s :: "pyobj \<Rightarrow> string option" where
  "convert_s (PyUnicode s) = (if CHR 0x00 \<in> set s then None else Some s)"
| "convert_s _ = None"

definition convert_O :: "pyobj \<Rightarrow> pyobj option" where
  "convert_O obj = Some obj"

text \<open>\<^verbatim>\<open>PyArg_ParseTuple(args, "i", &size)\<close>: exactly one argument, an \<^verbatim>\<open>int\<close>.\<close>

definition PyArg_ParseTuple_i :: "pyobj list \<Rightarrow> int option" where
  "PyArg_ParseTuple_i args = (case args of [obj] \<Rightarrow> convert_i obj | _ \<Rightarrow> None)"

text \<open>
  \<^verbatim>\<open>PyArg_ParseTuple(color, "fff|f", &rgba.x, &rgba.y, &rgba.z, &rgba.w)\<close>: three or
  four items; a fourth item that is absent leaves \<^verbatim>\<open>rgba.w\<close> as it was.
\<close>

definition PyArg_ParseTuple_fff_f :: "platform \<Rightarrow> pyobj list \<Rightarrow> float4 \<Rightarrow> float4 option" where
  "PyArg_ParseTuple_fff_f env items rgba =
     (if length items < 3 \<or> 4 < length items then None
      else do {
        x \<leftarrow> convert_f env (items ! 0);
        y \<leftarrow> convert_f env (items ! 1);
        z \<leftarrow> convert_f env (items ! 2);
        w \<leftarrow> (if length items = 4 then convert_f env (items ! 3) else Some (f4_w rgba));
        Some \<lparr>f4_x = x, f4_y = y, f4_z = z, f4_w = w\<rparr>
      })"

text \<open>
  \<^verbatim>\<open>PyArg_ParseTupleAndKeywords\<close>: the \<open>i\<close>-th parameter is the \<open>i\<close>-th positional
  argument when there is one, and the keyword argument of the \<open>i\<close>-th name otherwise. The
  call is refused when there are more positional arguments than names, or a keyword that is
  not the name of a parameter left open by the positional arguments. The keyword arguments
  are the items of a dictionary, as an association list.
\<close>

definition keywords_ok :: "string list \<Rightarrow> pyobj list \<Rightarrow> (string \<times> pyobj) list \<Rightarrow> bool" where
  "keywords_ok kwlist args kwds =
     (length args \<le> length kwlist \<and>
      list_all (\<lambda>k. k \<in> set (drop (length args) kwlist)) (map fst kwds))"

definition get_arg :: "string list \<Rightarrow> pyobj list \<Rightarrow> (string \<times> pyobj) list \<Rightarrow> nat \<Rightarrow> pyobj option" where
  "get_arg kwlist args kwds i =
     (if i < length args then Some (args ! i) else map_of kwds (kwlist ! i))"

text \<open>
  A parameter before the \<^verbatim>\<open>|\<close> of the format must be there; one after it keeps the
  value its C variable was initialised with when it is absent.
\<close>

definition required :: "(pyobj \<Rightarrow> 'a option) \<Rightarrow> pyobj option \<Rightarrow> 'a option" where
  "required conv slot = (case slot of None \<Rightarrow> None | Some obj \<Rightarrow> conv obj)"

definition optional :: "(pyobj \<Rightarrow> 'a option) \<Rightarrow> 'a \<Rightarrow> pyobj option \<Rightarrow> 'a option" where
  "optional conv init slot = (case slot of None \<Rightarrow> Some init | Some obj \<Rightarrow> conv obj)"

subsection \<open>Device memory: cudaMalloc\<close>

text \<open>
  \<^verbatim>\<open>PyCUDA_FreeMalloc\<close> is the destructor of a capsule of device memory. The capsule is
  state the function could write through its pointer, so it is returned with the trace: the
  function only reads it.
\<close>

definition PyCUDA_FreeMalloc :: "capsule \<Rightarrow> trace \<Rightarrow> capsule \<times> trace" where
  "PyCUDA_FreeMalloc capsule tr =
     (let p = PyCapsule_GetPointer capsule CUDA_MALLOC_MEMORY_CAPSULE in
      if p = NULL then (capsule, tr)
      else (capsule, tr @ [CudaFree p]))"

definition PyCUDA_RegisterMemory :: "platform \<Rightarrow> ptr \<Rightarrow> bool \<Rightarrow> trace \<Rightarrow> (error + pyobj) \<times> trace" where
  "PyCUDA_RegisterMemory env gpuPtr freeOnDelete tr =
     (if gpuPtr = NULL then (Inl RegisterMemory_NullPointers, tr)
      else
        case PyCapsule_New env gpuPtr CUDA_MALLOC_MEMORY_CAPSULE
               (if freeOnDelete then Some FreeMalloc else None) of
          None \<Rightarrow>
            (Inl RegisterMemory_CapsuleFailed,
             if freeOnDelete then tr @ [CudaFree gpuPtr] else tr)
        | Some capsule \<Rightarrow> (Inr (PyCapsule capsule), tr))"

text \<open>
  Modelled from the spec: the default value of the parameter \<^verbatim>\<open>freeOnDelete\<close> of
  \<^verbatim>\<open>PyCUDA_RegisterMemory\<close> and \<^verbatim>\<open>PyCUDA_RegisterMappedMemory\<close>, declared in the
  header \<^verbatim>\<open>PyCUDA.h\<close>, which is not among the sources. The allocation functions call
  both with the default; the specification gives an allocated handle
  \<^verbatim>\<open>owns_release = true\<close>.
\<close>

definition freeOnDelete_default :: bool where
  "freeOnDelete_default = True"

text \<open>
  \<^verbatim>\<open>PyCUDA_Malloc\<close>. The test on the primitive is \<^verbatim>\<open>if( !cudaMalloc(&gpuPtr, size) )\<close>:
  the negation of a \<^verbatim>\<open>cudaError_t\<close> is true exactly when the status is 0. The
  variable \<^verbatim>\<open>size\<close> is \<open>sz\<close> here.
\<close>

definition PyCUDA_Malloc :: "platform \<Rightarrow> pyobj list \<Rightarrow> trace \<Rightarrow> (error + pyobj) \<times> trace" where
  "PyCUDA_Malloc env args tr =
     (case PyArg_ParseTuple_i args of
        None \<Rightarrow> (Inl Malloc_ParseFailed, tr)
      | Some sz \<Rightarrow>
          if sz \<le> 0 then (Inl Malloc_SizeNotPositive, tr)
          else
            let (status, gpuPtr) = cudaMalloc env sz;
                tr' = tr @ [CudaMalloc sz]
            in if status = 0 then (Inl Malloc_Failed, tr')
               else PyCUDA_RegisterMemory env gpuPtr freeOnDelete_default tr')"

subsection \<open>Mapped memory: cudaAllocMapped\<close>

definition PyCUDA_FreeMapped :: "capsule \<Rightarrow> trace \<Rightarrow> capsule \<times> trace" where
  "PyCUDA_FreeMapped capsule tr =
     (let p = PyCapsule_GetPointer capsule CUDA_MAPPED_MEMORY_CAPSULE in
      if p = NULL then (capsule, tr)
      else (capsule, tr @ [CudaFreeHost p]))"

definition PyCUDA_RegisterMappedMemory :: "platform \<Rightarrow> ptr \<Rightarrow> ptr \<Rightarrow> bool \<Rightarrow> trace \<Rightarrow> (error + pyobj) \<times> trace" where
  "PyCUDA_RegisterMappedMemory env cpuPtr gpuPtr freeOnDelete tr =
     (if cpuPtr = NULL \<or> gpuPtr = NULL then (Inl RegisterMapped_NullPointers, tr)
      else if cpuPtr \<noteq> gpuPtr then
        (Inl RegisterMapped_Mismatch,
         if freeOnDelete then tr @ [CudaFreeHost cpuPtr] else tr)
      else
        case PyCapsule_New env cpuPtr CUDA_MAPPED_MEMORY_CAPSULE
               (if freeOnDelete then Some FreeMapped else None) of
          None \<Rightarrow>
            (Inl RegisterMapped_CapsuleFailed,
             if freeOnDelete then tr @ [CudaFreeHost cpuPtr] else tr)
        | Some capsule \<Rightarrow> (Inr (PyCapsule capsule), tr))"

definition PyCUDA_AllocMapped :: "platform \<Rightarrow> pyobj list \<Rightarrow> trace \<Rightarrow> (error + pyobj) \<times> trace" where
  "PyCUDA_AllocMapped env args tr =
     (case PyArg_ParseTuple_i args of
        None \<Rightarrow> (Inl AllocMapped_ParseFailed, tr)
      | Some sz \<Rightarrow>
          if sz \<le> 0 then (Inl AllocMapped_SizeNotPositive, tr)
          else
            let (ok, cpuPtr, gpuPtr) = cudaAllocMapped env sz;
                tr' = tr @ [CudaAllocMapped sz]
            in if \<not> ok then (Inl AllocMapped_Failed, tr')
               else PyCUDA_RegisterMappedMemory env cpuPtr gpuPtr freeOnDelete_default tr')"

text \<open>
  CPython destroys a capsule by calling its destructor, when it has one, on the capsule.
\<close>

definition capsule_dealloc :: "capsule \<Rightarrow> trace \<Rightarrow> trace" where
  "capsule_dealloc c tr =
     (case cap_destructor c of
        None \<Rightarrow> tr
      | Some FreeMalloc \<Rightarrow> snd (PyCUDA_FreeMalloc c tr)
      | Some FreeMapped \<Rightarrow> snd (PyCUDA_FreeMapped c tr))"

subsection \<open>The font object\<close>

text \<open>
  \<^verbatim>\<open>PyFont_Object\<close>: the font pointer and the fourteen colour members. The member
  \<^verbatim>\<open>tan\<close> is \<open>tan_color\<close> here.
\<close>

record PyFont_Object =
  font :: ptr
  black :: pyobj
  white :: pyobj
  gray :: pyobj
  brown :: pyobj
  tan_color :: pyobj
  red :: pyobj
  green :: pyobj
  blue :: pyobj
  cyan :: pyobj
  lime :: pyobj
  yellow :: pyobj
  orange :: pyobj
  purple :: pyobj
  magenta :: pyobj

text \<open>
  \<^verbatim>\<open>Py_BuildValue("(ffff)", a, b, c, d)\<close>: a tuple of four Python floats, or no object.
  \<open>k\<close> counts the calls within \<^verbatim>\<open>PyFont_New\<close>.
\<close>

definition Py_BuildValue_ffff :: "platform \<Rightarrow> nat \<Rightarrow> fpval \<Rightarrow> fpval \<Rightarrow> fpval \<Rightarrow> fpval \<Rightarrow> pyobj option" where
  "Py_BuildValue_ffff env k a b c d =
     (if Py_BuildValue_ok env k then Some (PyTuple [PyFloat a, PyFloat b, PyFloat c, PyFloat d])
      else None)"

definition INIT_COLOR :: "platform \<Rightarrow> nat \<Rightarrow> real \<Rightarrow> real \<Rightarrow> real \<Rightarrow> pyobj option" where
  "INIT_COLOR env k r g b =
     Py_BuildValue_ffff env k (Finite r) (Finite g) (Finite b) (Finite 255)"

definition PyFont_New :: "platform \<Rightarrow> error + PyFont_Object" where
  "PyFont_New env =
     (if \<not> tp_alloc env then Inl FontNew_AllocFailed
      else
        case do {
          c_black \<leftarrow> INIT_COLOR env 0 0 0 0;
          c_white \<leftarrow> INIT_COLOR env 1 255 255 255;
          c_gray \<leftarrow> INIT_COLOR env 2 128 128 128;
          c_brown \<leftarrow> INIT_COLOR env 3 165 42 42;
          c_tan \<leftarrow> INIT_COLOR env 4 210 180 140;
          c_red \<leftarrow> INIT_COLOR env 5 255 255 255;
          c_green \<leftarrow> INIT_COLOR env 6 0 200 128;
          c_blue \<leftarrow> INIT_COLOR env 7 0 0 255;
          c_cyan \<leftarrow> INIT_COLOR env 8 0 255 255;
          c_lime \<leftarrow> INIT_COLOR env 9 0 255 0;
          c_yellow \<leftarrow> INIT_COLOR env 10 255 255 0;
          c_orange \<leftarrow> INIT_COLOR env 11 255 165 0;
          c_purple \<leftarrow> INIT_COLOR env 12 128 0 128;
          c_magenta \<leftarrow> INIT_COLOR env 13 255 0 255;
          Some \<lparr>font = NULL, black = c_black, white = c_white, gray = c_gray, brown = c_brown,
                tan_color = c_tan, red = c_red, green = c_green, blue = c_blue, cyan = c_cyan,
                lime = c_lime, yellow = c_yellow, orange = c_orange, purple = c_purple,
                magenta = c_magenta\<rparr>
        } of
          None \<Rightarrow> Inl FontNew_BuildValueFailed
        | Some self \<Rightarrow> Inr self)"

text \<open>
  \<^verbatim>\<open>PyFont_Init\<close>: format \<^verbatim>\<open>"|s"\<close> with the keyword \<^verbatim>\<open>bitmap\<close>; the object is
  returned with its font set, or an error (the C function returns \<open>-1\<close>).
\<close>

definition init_kwlist :: "string list" where
  "init_kwlist = [''bitmap'']"

definition PyFont_Init :: "platform \<Rightarrow> PyFont_Object \<Rightarrow> pyobj list \<Rightarrow> (string \<times> pyobj) list \<Rightarrow> error + PyFont_Object" where
  "PyFont_Init env self args kwds =
     (case (if keywords_ok init_kwlist args kwds
            then optional convert_s ''fontmapA.png'' (get_arg init_kwlist args kwds 0)
            else None) of
        None \<Rightarrow> Inl FontInit_ParseFailed
      | Some bitmap \<Rightarrow>
          let new_font = cudaFont_Create env bitmap
          in if new_font = NULL then Inl FontInit_CreateFailed
             else Inr (self\<lparr>font := new_font\<rparr>))"

text \<open>The member table \<^verbatim>\<open>pyFont_Members\<close>: the Python name of each colour attribute.\<close>

definition pyFont_Members :: "PyFont_Object \<Rightarrow> (string \<times> pyobj) list" where
  "pyFont_Members self =
     [(''Black'', black self), (''White'', white self), (''Gray'', gray self),
      (''Brown'', brown self), (''Tan'', tan_color self), (''Red'', red self),
      (''Green'', green self), (''Blue'', blue self), (''Cyan'', cyan self),
      (''Lime'', lime self), (''Yellow'', yellow self), (''Orange'', orange self),
      (''Purple'', purple self), (''Magenta'', magenta self)]"

subsection \<open>The overlay\<close>

text \<open>
  The arguments of \<^verbatim>\<open>Overlay\<close> after parsing with the format \<^verbatim>\<open>"Oiis|iiOO"\<close>. An
  optional object that was not given is \<open>None\<close> (the C pointer stays \<^verbatim>\<open>NULL\<close>); an
  optional integer that was not given is 0.
\<close>

record overlay_args =
  arg_input :: pyobj
  arg_width :: int
  arg_height :: int
  arg_text :: string
  arg_x :: int
  arg_y :: int
  arg_color :: "pyobj option"
  arg_output :: "pyobj option"

definition overlay_kwlist :: "string list" where
  "overlay_kwlist =
     [''input'', ''width'', ''height'', ''text'', ''x'', ''y'', ''color'', ''output'']"

definition parse_overlay_args :: "pyobj list \<Rightarrow> (string \<times> pyobj) list \<Rightarrow> overlay_args option" where
  "parse_overlay_args args kwds =
     (let arg = get_arg overlay_kwlist args kwds in
      if keywords_ok overlay_kwlist args kwds then
        do {
          input \<leftarrow> required convert_O (arg 0);
          width \<leftarrow> required convert_i (arg 1);
          height \<leftarrow> required convert_i (arg 2);
          txt \<leftarrow> required convert_s (arg 3);
          x \<leftarrow> optional convert_i 0 (arg 4);
          y \<leftarrow> optional convert_i 0 (arg 5);
          color \<leftarrow> optional (\<lambda>obj. Some (Some obj)) None (arg 6);
          output \<leftarrow> optional (\<lambda>obj. Some (Some obj)) None (arg 7);
          Some \<lparr>arg_input = input, arg_width = width, arg_height = height, arg_text = txt,
                arg_x = x, arg_y = y, arg_color = color, arg_output = output\<rparr>
        }
      else None)"

text \<open>
  The colour: \<^verbatim>\<open>rgba\<close> starts as \<^verbatim>\<open>make_float4(0, 0, 0, 255)\<close>; a colour argument
  must be a tuple and parse with \<^verbatim>\<open>"fff|f"\<close>.
\<close>

definition parse_color_tuple :: "platform \<Rightarrow> pyobj option \<Rightarrow> error + float4" where
  "parse_color_tuple env color =
     (let rgba = make_float4 (Finite 0) (Finite 0) (Finite 0) (Finite 255) in
      case color of
        None \<Rightarrow> Inr rgba
      | Some c \<Rightarrow>
          (case c of
             PyTuple items \<Rightarrow>
               (case PyArg_ParseTuple_fff_f env items rgba of
                  None \<Rightarrow> Inl Overlay_ColorParseFailed
                | Some rgba' \<Rightarrow> Inr rgba')
           | _ \<Rightarrow> Inl Overlay_ColorNotTuple))"

text \<open>
  \<^verbatim>\<open>PyFont_Overlay\<close>. \<open>self\<close> is \<open>None\<close> for a null object pointer. The boolean the
  renderer returns is dropped, as in the source; the call returns \<^verbatim>\<open>None\<close>.
\<close>

definition PyFont_Overlay :: "platform \<Rightarrow> PyFont_Object option \<Rightarrow> pyobj list \<Rightarrow> (string \<times> pyobj) list \<Rightarrow> trace \<Rightarrow> (error + pyobj) \<times> trace" where
  "PyFont_Overlay env self args kwds tr =
     (case self of
        None \<Rightarrow> (Inl Overlay_InvalidInstance, tr)
      | Some s \<Rightarrow>
          if font s = NULL then (Inl Overlay_InvalidInstance, tr)
          else
            (case parse_overlay_args args kwds of
               None \<Rightarrow> (Inl Overlay_ParseFailed, tr)
             | Some a \<Rightarrow>
                 let output = (case arg_output a of None \<Rightarrow> arg_input a | Some obj \<Rightarrow> obj) in
                 (case parse_color_tuple env (arg_color a) of
                    Inl e \<Rightarrow> (Inl e, tr)
                  | Inr rgba \<Rightarrow>
                      if arg_width a \<le> 0 \<or> arg_height a \<le> 0
                      then (Inl Overlay_BadDimensions, tr)
                      else
                        let input_img = PyCUDA_GetPointer env (arg_input a) in
                        if input_img = NULL then (Inl Overlay_InputPointer, tr)
                        else
                          let output_img = PyCUDA_GetPointer env output in
                          if output_img = NULL then (Inl Overlay_OutputPointer, tr)
                          else
                            let rendered = cudaFont_RenderOverlay env (font s) input_img
                                  output_img (arg_width a) (arg_height a) (arg_text a)
                                  (arg_x a) (arg_y a) rgba
                            in (Inr PyNone,
                                tr @ [RenderOverlay (font s) input_img output_img (arg_width a)
                                        (arg_height a) (arg_text a) (arg_x a) (arg_y a) rgba]))))"

subsection \<open>Predicates and sample values used in the statements below\<close>

text \<open>
  A colour argument is rejected when it is there and is not a tuple of three or four items
  that all convert with \<^verbatim>\<open>"f"\<close> on the platform.
\<close>

definition color_rejected :: "platform \<Rightarrow> pyobj option \<Rightarrow> bool" where
  "color_rejected env color =
     (case color of
        None \<Rightarrow> False
      | Some c \<Rightarrow>
          (case c of
             PyTuple items \<Rightarrow>
               length items < 3 \<or> 4 < length items \<or> list_ex (\<lambda>obj. convert_f env obj = None) items
           | _ \<Rightarrow> True))"

definition rgba_tuple :: "real \<Rightarrow> real \<Rightarrow> real \<Rightarrow> real \<Rightarrow> pyobj" where
  "rgba_tuple r g b a =
     PyTuple [PyFloat (Finite r), PyFloat (Finite g), PyFloat (Finite b), PyFloat (Finite a)]"

text \<open>
  A platform on which every primitive succeeds: \<^verbatim>\<open>cudaMalloc\<close> returns
  \<^verbatim>\<open>cudaSuccess\<close> and the address 4096, \<^verbatim>\<open>cudaAllocMapped\<close> returns the address
  8192 for both views, and the data pointer of a capsule is its stored pointer. An integer
  converts to a \<^verbatim>\<open>double\<close> when its magnitude is below \<open>2 ^ 1024 - 2 ^ 970\<close>, the
  least magnitude that rounds to \<open>2 ^ 1024\<close>. The conversions keep the value, which is
  what they do on the small integers used below; their rounding of other numbers is not
  part of this sample.
\<close>

definition working_platform :: platform where
  "working_platform =
     \<lparr>cudaMalloc = (\<lambda>sz. (cudaSuccess, 4096)),
      cudaAllocMapped = (\<lambda>sz. (True, 8192, 8192)),
      capsule_alloc = True,
      tp_alloc = True,
      Py_BuildValue_ok = (\<lambda>k. True),
      cudaFont_Create = (\<lambda>bitmap. 512),
      PyCUDA_GetPointer = (\<lambda>obj. case obj of PyCapsule c \<Rightarrow> cap_pointer c | _ \<Rightarrow> NULL),
      cudaFont_RenderOverlay = (\<lambda>fnt inp out w h s x y c. True),
      PyLong_AsDouble =
        (\<lambda>n. if \<bar>n\<bar> < 2 ^ 1024 - 2 ^ 970 then Some (Finite (of_int n)) else None),
      float_cast = (\<lambda>d. d)\<rparr>"

text \<open>The same platform with a mapped allocation whose two addresses differ.\<close>

definition mismatch_platform :: platform where
  "mismatch_platform = working_platform\<lparr>cudaAllocMapped := (\<lambda>sz. (True, 8192, 12288))\<rparr>"

text \<open>The same platform when CPython cannot allocate a capsule.\<close>

definition no_capsule_platform :: platform where
  "no_capsule_platform = working_platform\<lparr>capsule_alloc := False\<rparr>"

definition device_capsule :: capsule where
  "device_capsule =
     \<lparr>cap_pointer = 4096, cap_name = CUDA_MALLOC_MEMORY_CAPSULE,
      cap_destructor = Some FreeMalloc\<rparr>"

definition mapped_capsule :: capsule where
  "mapped_capsule =
     \<lparr>cap_pointer = 8192, cap_name = CUDA_MAPPED_MEMORY_CAPSULE,
      cap_destructor = Some FreeMapped\<rparr>"

definition borrowed_device_capsule :: capsule where
  "borrowed_device_capsule =
     \<lparr>cap_pointer = 4096, cap_name = CUDA_MALLOC_MEMORY_CAPSULE, cap_destructor = None\<rparr>"

definition borrowed_mapped_capsule :: capsule where
  "borrowed_mapped_capsule =
     \<lparr>cap_pointer = 8192, cap_name = CUDA_MAPPED_MEMORY_CAPSULE, cap_destructor = None\<rparr>"

text \<open>An integer beyond the range of a \<^verbatim>\<open>double\<close>.\<close>

definition huge_int :: int where
  "huge_int = 2 ^ 1024"

definition image_buffer :: pyobj where
  "image_buffer = PyCapsule mapped_capsule"

definition ready_font :: PyFont_Object where
  "ready_font =
     \<lparr>font = 512,
      black = rgba_tuple 0 0 0 255, white = rgba_tuple 255 255 255 255,
      gray = rgba_tuple 128 128 128 255, brown = rgba_tuple 165 42 42 255,
      tan_color = rgba_tuple 210 180 140 255, red = rgba_tuple 255 255 255 255,
      green = rgba_tuple 0 200 128 255, blue = rgba_tuple 0 0 255 255,
      cyan = rgba_tuple 0 255 255 255, lime = rgba_tuple 0 255 0 255,
      yellow = rgba_tuple 255 255 0 255, orange = rgba_tuple 255 165 0 255,
      purple = rgba_tuple 128 0 128 255, magenta = rgba_tuple 255 0 255 255\<rparr>"

section \<open>Properties of the memory functions\<close>

subsection \<open>Auxiliary facts\<close>

lemma PyArg_ParseTuple_i_single:
  "PyArg_ParseTuple_i [PyLong n] = (if INT_MIN \<le> n \<and> n \<le> INT_MAX then Some n else None)"
  by (simp add: PyArg_ParseTuple_i_def)

lemma PyCUDA_Malloc_primitive_succeeds:
  "PyArg_ParseTuple_i args = Some sz \<Longrightarrow> 0 < sz \<Longrightarrow> fst (cudaMalloc env sz) = cudaSuccess \<Longrightarrow>
   PyCUDA_Malloc env args tr = (Inl Malloc_Failed, tr @ [CudaMalloc sz])"
  by (auto simp: PyCUDA_Malloc_def cudaSuccess_def Let_def split: prod.splits)

lemma PyCUDA_Malloc_primitive_fails:
  "PyArg_ParseTuple_i args = Some sz \<Longrightarrow> 0 < sz \<Longrightarrow> cudaMalloc env sz = (status, gpuPtr) \<Longrightarrow>
   status \<noteq> cudaSuccess \<Longrightarrow>
   PyCUDA_Malloc env args tr =
     PyCUDA_RegisterMemory env gpuPtr freeOnDelete_default (tr @ [CudaMalloc sz])"
  by (simp add: PyCUDA_Malloc_def cudaSuccess_def)

lemma PyCUDA_AllocMapped_primitive_succeeds:
  "PyArg_ParseTuple_i args = Some sz \<Longrightarrow> 0 < sz \<Longrightarrow> cudaAllocMapped env sz = (True, p, p) \<Longrightarrow>
   p \<noteq> NULL \<Longrightarrow> capsule_alloc env \<Longrightarrow>
   PyCUDA_AllocMapped env args tr =
     (Inr (PyCapsule \<lparr>cap_pointer = p, cap_name = CUDA_MAPPED_MEMORY_CAPSULE,
                      cap_destructor = Some FreeMapped\<rparr>),
      tr @ [CudaAllocMapped sz])"
  by (simp add: PyCUDA_AllocMapped_def PyCUDA_RegisterMappedMemory_def PyCapsule_New_def
      freeOnDelete_default_def)

subsection \<open>Allocation of device memory\<close>

text \<open>
  Claim C1 says that \<^verbatim>\<open>PyCUDA_Malloc\<close> fails exactly when \<^verbatim>\<open>cudaMalloc\<close> fails and
  returns a handle when it succeeds. The code tests the status with \<^verbatim>\<open>!\<close>, so it takes
  the failure branch when the status is \<^verbatim>\<open>cudaSuccess\<close>: on a platform where
  \<^verbatim>\<open>cudaMalloc\<close> succeeds with the address 4096, a request for 16 bytes calls the
  primitive and then returns the error "cudaMalloc() failed", with no handle and no free of
  the address.
\<close>

theorem malloc_success_reported_as_failure:
  "PyCUDA_Malloc working_platform [PyLong 16] [] = (Inl Malloc_Failed, [CudaMalloc 16])"
  by (simp add: PyCUDA_Malloc_def PyArg_ParseTuple_i_single INT_MIN_def INT_MAX_def
      working_platform_def cudaSuccess_def)

text \<open>
  Claim C5: for every integer size that is zero or negative, \<^verbatim>\<open>PyCUDA_Malloc\<close> and
  \<^verbatim>\<open>PyCUDA_AllocMapped\<close> return an error \<open>e\<close> and leave the trace as it was (no
  primitive is called). The error differs from the error of a failed allocation, in its
  constructor and in its message. It is the "requested size is negative or zero" error for
  every size a C \<^verbatim>\<open>int\<close> holds, and the parse error below \<open>INT_MIN\<close>.
\<close>

theorem nonpositive_size_rejected:
  "sz \<le> 0 \<Longrightarrow>
   (\<exists>e. PyCUDA_Malloc env [PyLong sz] tr = (Inl e, tr) \<and>
        e \<noteq> Malloc_Failed \<and> message e \<noteq> message Malloc_Failed \<and>
        e = (if INT_MIN \<le> sz then Malloc_SizeNotPositive else Malloc_ParseFailed)) \<and>
   (\<exists>e. PyCUDA_AllocMapped env [PyLong sz] tr = (Inl e, tr) \<and>
        e \<noteq> AllocMapped_Failed \<and> message e \<noteq> message AllocMapped_Failed \<and>
        e = (if INT_MIN \<le> sz then AllocMapped_SizeNotPositive else AllocMapped_ParseFailed))"
  by (simp add: PyCUDA_Malloc_def PyCUDA_AllocMapped_def PyArg_ParseTuple_i_single INT_MAX_def)

theorem nonpositive_size_rejected_witness:
  "(0::int) \<le> 0 \<and> (- 8::int) \<le> 0 \<and>
   PyCUDA_Malloc working_platform [PyLong 0] [] = (Inl Malloc_SizeNotPositive, []) \<and>
   PyCUDA_AllocMapped working_platform [PyLong 0] [] = (Inl AllocMapped_SizeNotPositive, []) \<and>
   PyCUDA_Malloc working_platform [PyLong (- 8)] [] = (Inl Malloc_SizeNotPositive, []) \<and>
   PyCUDA_AllocMapped working_platform [PyLong (- 8)] [] =
     (Inl AllocMapped_SizeNotPositive, []) \<and>
   message Malloc_SizeNotPositive \<noteq> message Malloc_Failed \<and>
   message AllocMapped_SizeNotPositive \<noteq> message AllocMapped_Failed"
  using nonpositive_size_rejected [of 0 working_platform "[]"]
    nonpositive_size_rejected [of "- 8" working_platform "[]"]
  by (simp add: INT_MIN_def)

subsection \<open>Allocation of mapped memory\<close>

text \<open>
  Claim C2: when \<^verbatim>\<open>cudaAllocMapped\<close> succeeds with a CPU address and a GPU address that
  are both non-null and differ, \<^verbatim>\<open>PyCUDA_AllocMapped\<close> calls \<^verbatim>\<open>cudaFreeHost\<close> on the
  CPU address and returns the "pointers don't match" error; no capsule is returned.
\<close>

theorem mapped_mismatch_freed:
  "PyArg_ParseTuple_i args = Some sz \<Longrightarrow> 0 < sz \<Longrightarrow>
   cudaAllocMapped env sz = (True, cpuPtr, gpuPtr) \<Longrightarrow>
   cpuPtr \<noteq> NULL \<Longrightarrow> gpuPtr \<noteq> NULL \<Longrightarrow> cpuPtr \<noteq> gpuPtr \<Longrightarrow>
   PyCUDA_AllocMapped env args tr =
     (Inl RegisterMapped_Mismatch, tr @ [CudaAllocMapped sz, CudaFreeHost cpuPtr])"
  by (simp add: PyCUDA_AllocMapped_def PyCUDA_RegisterMappedMemory_def freeOnDelete_default_def)

theorem mapped_mismatch_freed_witness:
  "PyArg_ParseTuple_i [PyLong 64] = Some 64 \<and> (0::int) < 64 \<and>
   cudaAllocMapped mismatch_platform 64 = (True, 8192, 12288) \<and>
   (8192::nat) \<noteq> NULL \<and> (12288::nat) \<noteq> NULL \<and> (8192::nat) \<noteq> 12288 \<and>
   PyCUDA_AllocMapped mismatch_platform [PyLong 64] [] =
     (Inl RegisterMapped_Mismatch, [CudaAllocMapped 64, CudaFreeHost 8192])"
  using mapped_mismatch_freed [of "[PyLong 64]" 64 mismatch_platform 8192 12288 "[]"]
  by (simp add: PyArg_ParseTuple_i_single INT_MIN_def INT_MAX_def NULL_def mismatch_platform_def)

subsection \<open>Release\<close>

text \<open>
  Claim C3, as amended: a release callback does not clear the address its capsule stores.
  When the pointer can be read under the callback's capsule name, a call of
  \<^verbatim>\<open>PyCUDA_FreeMalloc\<close> (\<^verbatim>\<open>PyCUDA_FreeMapped\<close>) returns the capsule as it was and
  calls \<^verbatim>\<open>cudaFree\<close> (\<^verbatim>\<open>cudaFreeHost\<close>) once on the pointer, and a second call on
  the capsule the first one returned calls the primitive once more. When the pointer cannot
  be read, the call changes nothing and calls no primitive.
\<close>

theorem release_frees_on_every_call:
  "(PyCapsule_GetPointer c CUDA_MALLOC_MEMORY_CAPSULE \<noteq> NULL \<longrightarrow>
      PyCUDA_FreeMalloc c tr = (c, tr @ [CudaFree (cap_pointer c)]) \<and>
      (case PyCUDA_FreeMalloc c tr of (c', tr') \<Rightarrow> PyCUDA_FreeMalloc c' tr') =
        (c, tr @ [CudaFree (cap_pointer c), CudaFree (cap_pointer c)])) \<and>
   (PyCapsule_GetPointer c CUDA_MAPPED_MEMORY_CAPSULE \<noteq> NULL \<longrightarrow>
      PyCUDA_FreeMapped c tr = (c, tr @ [CudaFreeHost (cap_pointer c)]) \<and>
      (case PyCUDA_FreeMapped c tr of (c', tr') \<Rightarrow> PyCUDA_FreeMapped c' tr') =
        (c, tr @ [CudaFreeHost (cap_pointer c), CudaFreeHost (cap_pointer c)])) \<and>
   (PyCapsule_GetPointer c CUDA_MALLOC_MEMORY_CAPSULE = NULL \<longrightarrow>
      PyCUDA_FreeMalloc c tr = (c, tr)) \<and>
   (PyCapsule_GetPointer c CUDA_MAPPED_MEMORY_CAPSULE = NULL \<longrightarrow>
      PyCUDA_FreeMapped c tr = (c, tr))"
  by (simp add: PyCUDA_FreeMalloc_def PyCUDA_FreeMapped_def PyCapsule_GetPointer_def Let_def)

theorem release_frees_on_every_call_witness:
  "PyCapsule_GetPointer device_capsule CUDA_MALLOC_MEMORY_CAPSULE = 4096 \<and>
   PyCUDA_FreeMalloc device_capsule [] = (device_capsule, [CudaFree 4096]) \<and>
   (case PyCUDA_FreeMalloc device_capsule [] of (c', tr') \<Rightarrow> PyCUDA_FreeMalloc c' tr') =
     (device_capsule, [CudaFree 4096, CudaFree 4096]) \<and>
   PyCapsule_GetPointer mapped_capsule CUDA_MAPPED_MEMORY_CAPSULE = 8192 \<and>
   (case PyCUDA_FreeMapped mapped_capsule [] of (c', tr') \<Rightarrow> PyCUDA_FreeMapped c' tr') =
     (mapped_capsule, [CudaFreeHost 8192, CudaFreeHost 8192]) \<and>
   PyCapsule_GetPointer mapped_capsule CUDA_MALLOC_MEMORY_CAPSULE = NULL \<and>
   PyCUDA_FreeMalloc mapped_capsule [] = (mapped_capsule, [])"
proof -
  have d: "PyCapsule_GetPointer device_capsule CUDA_MALLOC_MEMORY_CAPSULE = 4096"
    and dp: "cap_pointer device_capsule = 4096"
    by (simp_all add: PyCapsule_GetPointer_def device_capsule_def)
  have m: "PyCapsule_GetPointer mapped_capsule CUDA_MAPPED_MEMORY_CAPSULE = 8192"
    and mp: "cap_pointer mapped_capsule = 8192"
    and n: "PyCapsule_GetPointer mapped_capsule CUDA_MALLOC_MEMORY_CAPSULE = NULL"
    by (simp_all add: PyCapsule_GetPointer_def mapped_capsule_def)
  show ?thesis
    using release_frees_on_every_call [of device_capsule "[]"]
      release_frees_on_every_call [of mapped_capsule "[]"]
      release_frees_on_every_call [of device_capsule "[CudaFree 4096]"]
      release_frees_on_every_call [of mapped_capsule "[CudaFreeHost 8192]"]
    by (simp add: d dp m mp n NULL_def)
qed

text \<open>
  Claim C3 as stated fails: the first release of a capsule of device memory at 4096 returns
  the capsule with its address still 4096, and the second release of that capsule calls
  \<^verbatim>\<open>cudaFree\<close> a second time.
\<close>

theorem second_release_frees_again:
  "PyCUDA_FreeMalloc device_capsule [] = (device_capsule, [CudaFree 4096]) \<and>
   cap_pointer device_capsule = 4096 \<and>
   PyCUDA_FreeMalloc device_capsule [CudaFree 4096] =
     (device_capsule, [CudaFree 4096, CudaFree 4096])"
  by (simp add: PyCUDA_FreeMalloc_def PyCapsule_GetPointer_def device_capsule_def NULL_def)

text \<open>
  Claim C6: a capsule registered with \<^verbatim>\<open>freeOnDelete = false\<close> has no destructor, so
  destroying it calls nothing; and the registration itself, whatever its outcome, leaves the
  trace as it was.
\<close>

theorem non_owning_handle_never_frees:
  "(PyCUDA_RegisterMemory env gpuPtr False tr = (Inr (PyCapsule c), tr') \<longrightarrow>
      tr' = tr \<and> cap_destructor c = None \<and> capsule_dealloc c trd = trd) \<and>
   (PyCUDA_RegisterMappedMemory env cpuPtr gpuPtrd False tr = (Inr (PyCapsule cm), tr'') \<longrightarrow>
      tr'' = tr \<and> cap_destructor cm = None \<and> capsule_dealloc cm trd = trd) \<and>
   snd (PyCUDA_RegisterMemory env gpuPtr False tr) = tr \<and>
   snd (PyCUDA_RegisterMappedMemory env cpuPtr gpuPtrd False tr) = tr"
  by (auto simp: PyCUDA_RegisterMemory_def PyCUDA_RegisterMappedMemory_def PyCapsule_New_def
      capsule_dealloc_def split: if_splits option.splits)

theorem non_owning_handle_never_frees_witness:
  "PyCUDA_RegisterMemory working_platform 4096 False [CudaMalloc 16] =
     (Inr (PyCapsule borrowed_device_capsule), [CudaMalloc 16]) \<and>
   capsule_dealloc borrowed_device_capsule [CudaMalloc 16] = [CudaMalloc 16] \<and>
   PyCUDA_RegisterMappedMemory working_platform 8192 8192 False [CudaMalloc 16] =
     (Inr (PyCapsule borrowed_mapped_capsule), [CudaMalloc 16]) \<and>
   capsule_dealloc borrowed_mapped_capsule [CudaMalloc 16] = [CudaMalloc 16]"
proof -
  have r: "PyCUDA_RegisterMemory working_platform 4096 False [CudaMalloc 16] =
     (Inr (PyCapsule borrowed_device_capsule), [CudaMalloc 16])"
    by (simp add: PyCUDA_RegisterMemory_def PyCapsule_New_def NULL_def working_platform_def
        borrowed_device_capsule_def)
  have m: "PyCUDA_RegisterMappedMemory working_platform 8192 8192 False [CudaMalloc 16] =
     (Inr (PyCapsule borrowed_mapped_capsule), [CudaMalloc 16])"
    by (simp add: PyCUDA_RegisterMappedMemory_def PyCapsule_New_def NULL_def
        working_platform_def borrowed_mapped_capsule_def)
  show ?thesis
    using non_owning_handle_never_frees [where env = working_platform and gpuPtr = 4096
        and tr = "[CudaMalloc 16]" and c = borrowed_device_capsule and tr' = "[CudaMalloc 16]"
        and trd = "[CudaMalloc 16]" and cpuPtr = 8192 and gpuPtrd = 8192
        and cm = borrowed_mapped_capsule and tr'' = "[CudaMalloc 16]"] r m
    by simp
qed

text \<open>
  Claim C9: when the capsule cannot be created, a registration with
  \<^verbatim>\<open>freeOnDelete = true\<close> calls the matching free primitive on the memory
  (\<^verbatim>\<open>cudaFree\<close>, or \<^verbatim>\<open>cudaFreeHost\<close> for mapped memory) and returns the error; with
  \<^verbatim>\<open>freeOnDelete = false\<close> it returns the error and calls nothing.
\<close>

theorem capsule_failure_frees_owned_memory:
  "p \<noteq> NULL \<Longrightarrow> \<not> capsule_alloc env \<Longrightarrow>
   PyCUDA_RegisterMemory env p True tr =
     (Inl RegisterMemory_CapsuleFailed, tr @ [CudaFree p]) \<and>
   PyCUDA_RegisterMappedMemory env p p True tr =
     (Inl RegisterMapped_CapsuleFailed, tr @ [CudaFreeHost p]) \<and>
   PyCUDA_RegisterMemory env p False tr = (Inl RegisterMemory_CapsuleFailed, tr) \<and>
   PyCUDA_RegisterMappedMemory env p p False tr = (Inl RegisterMapped_CapsuleFailed, tr)"
  by (simp add: PyCUDA_RegisterMemory_def PyCUDA_RegisterMappedMemory_def PyCapsule_New_def)

theorem capsule_failure_frees_owned_memory_witness:
  "(4096::nat) \<noteq> NULL \<and> \<not> capsule_alloc no_capsule_platform \<and>
   PyCUDA_RegisterMemory no_capsule_platform 4096 True [] =
     (Inl RegisterMemory_CapsuleFailed, [CudaFree 4096]) \<and>
   PyCUDA_RegisterMappedMemory no_capsule_platform 4096 4096 True [] =
     (Inl RegisterMapped_CapsuleFailed, [CudaFreeHost 4096]) \<and>
   PyCUDA_RegisterMemory no_capsule_platform 4096 False [] =
     (Inl RegisterMemory_CapsuleFailed, [])"
  using capsule_failure_frees_owned_memory [of 4096 no_capsule_platform "[]"]
  by (simp add: NULL_def no_capsule_platform_def)

section \<open>Properties of the font object\<close>

subsection \<open>The colour members\<close>

lemma INIT_COLOR_Some:
  "INIT_COLOR env k r g b = Some c \<Longrightarrow> c = rgba_tuple r g b 255"
  by (simp add: INIT_COLOR_def Py_BuildValue_ffff_def rgba_tuple_def split: if_splits)

lemma PyFont_New_members:
  assumes "PyFont_New env = Inr self"
  shows "pyFont_Members self =
     [(''Black'', rgba_tuple 0 0 0 255), (''White'', rgba_tuple 255 255 255 255),
      (''Gray'', rgba_tuple 128 128 128 255), (''Brown'', rgba_tuple 165 42 42 255),
      (''Tan'', rgba_tuple 210 180 140 255), (''Red'', rgba_tuple 255 255 255 255),
      (''Green'', rgba_tuple 0 200 128 255), (''Blue'', rgba_tuple 0 0 255 255),
      (''Cyan'', rgba_tuple 0 255 255 255), (''Lime'', rgba_tuple 0 255 0 255),
      (''Yellow'', rgba_tuple 255 255 0 255), (''Orange'', rgba_tuple 255 165 0 255),
      (''Purple'', rgba_tuple 128 0 128 255), (''Magenta'', rgba_tuple 255 0 255 255)]"
  using assms
  by (auto simp: PyFont_New_def pyFont_Members_def split: if_splits option.splits bind_splits
      dest!: INIT_COLOR_Some)

lemma PyFont_Init_members:
  "PyFont_Init env self0 args kwds = Inr self \<Longrightarrow> pyFont_Members self = pyFont_Members self0"
  by (auto simp: PyFont_Init_def pyFont_Members_def Let_def split: option.splits if_splits)

lemma PyFont_New_working: "PyFont_New working_platform = Inr (ready_font\<lparr>font := NULL\<rparr>)"
  by (simp add: PyFont_New_def INIT_COLOR_def Py_BuildValue_ffff_def working_platform_def
      ready_font_def rgba_tuple_def)

lemma PyFont_Init_working:
  "PyFont_Init working_platform (ready_font\<lparr>font := NULL\<rparr>) [] [] = Inr ready_font"
  by (simp add: PyFont_Init_def keywords_ok_def init_kwlist_def optional_def get_arg_def
      working_platform_def ready_font_def NULL_def)

text \<open>
  Claim C8: an object that \<^verbatim>\<open>PyFont_New\<close> created and \<^verbatim>\<open>PyFont_Init\<close> initialised has
  the fourteen colour members with the values of the glossary, each a tuple of four floats
  whose last component is 255. Red has the components of White.
\<close>

theorem named_color_constants:
  assumes "PyFont_New env = Inr self0" and "PyFont_Init env self0 args kwds = Inr self"
  shows "pyFont_Members self =
     [(''Black'', rgba_tuple 0 0 0 255), (''White'', rgba_tuple 255 255 255 255),
      (''Gray'', rgba_tuple 128 128 128 255), (''Brown'', rgba_tuple 165 42 42 255),
      (''Tan'', rgba_tuple 210 180 140 255), (''Red'', rgba_tuple 255 255 255 255),
      (''Green'', rgba_tuple 0 200 128 255), (''Blue'', rgba_tuple 0 0 255 255),
      (''Cyan'', rgba_tuple 0 255 255 255), (''Lime'', rgba_tuple 0 255 0 255),
      (''Yellow'', rgba_tuple 255 255 0 255), (''Orange'', rgba_tuple 255 165 0 255),
      (''Purple'', rgba_tuple 128 0 128 255), (''Magenta'', rgba_tuple 255 0 255 255)]"
  using PyFont_Init_members [OF assms(2)] PyFont_New_members [OF assms(1)] by simp

theorem named_color_constants_witness:
  "PyFont_New working_platform = Inr (ready_font\<lparr>font := NULL\<rparr>) \<and>
   PyFont_Init working_platform (ready_font\<lparr>font := NULL\<rparr>) [] [] = Inr ready_font \<and>
   red ready_font =
     PyTuple [PyFloat (Finite 255), PyFloat (Finite 255), PyFloat (Finite 255),
              PyFloat (Finite 255)] \<and>
   pyFont_Members ready_font =
     [(''Black'', rgba_tuple 0 0 0 255), (''White'', rgba_tuple 255 255 255 255),
      (''Gray'', rgba_tuple 128 128 128 255), (''Brown'', rgba_tuple 165 42 42 255),
      (''Tan'', rgba_tuple 210 180 140 255), (''Red'', rgba_tuple 255 255 255 255),
      (''Green'', rgba_tuple 0 200 128 255), (''Blue'', rgba_tuple 0 0 255 255),
      (''Cyan'', rgba_tuple 0 255 255 255), (''Lime'', rgba_tuple 0 255 0 255),
      (''Yellow'', rgba_tuple 255 255 0 255), (''Orange'', rgba_tuple 255 165 0 255),
      (''Purple'', rgba_tuple 128 0 128 255), (''Magenta'', rgba_tuple 255 0 255 255)]"
  using named_color_constants [OF PyFont_New_working PyFont_Init_working]
    PyFont_New_working PyFont_Init_working
  by (simp add: ready_font_def rgba_tuple_def)

subsection \<open>Auxiliary facts on the overlay\<close>

lemma font_ready_font: "font ready_font \<noteq> NULL"
  by (simp add: ready_font_def NULL_def)

lemma GetPointer_image_buffer: "PyCUDA_GetPointer working_platform image_buffer = 8192"
  by (simp add: working_platform_def image_buffer_def mapped_capsule_def)

lemma GetPointer_PyNone: "PyCUDA_GetPointer working_platform PyNone = NULL"
  by (simp add: working_platform_def)


lemma convert_f_working_long:
  "convert_f working_platform (PyLong n) =
     (if \<bar>n\<bar> < 2 ^ 1024 - 2 ^ 970 then Some (Finite (of_int n)) else None)"
  by (simp add: working_platform_def)

lemma convert_f_working_small: "convert_f working_platform (PyLong 0) = Some (Finite 0)"
  unfolding convert_f_working_long by simp

lemma convert_f_working_overflow: "convert_f working_platform (PyLong huge_int) = None"
  unfolding convert_f_working_long huge_int_def by simp

lemma convert_f_converts_iff:
  "(convert_f env obj \<noteq> None) =
     (case obj of PyFloat d \<Rightarrow> True | PyLong n \<Rightarrow> PyLong_AsDouble env n \<noteq> None
      | _ \<Rightarrow> False)"
  by (cases obj) (simp_all split: option.splits)

lemma convert_f_renderer:
  "convert_f (env\<lparr>cudaFont_RenderOverlay := r\<rparr>) obj = convert_f env obj"
  by (cases obj) (simp_all split: option.splits)

lemma PyArg_ParseTuple_fff_f_renderer:
  "PyArg_ParseTuple_fff_f (env\<lparr>cudaFont_RenderOverlay := r\<rparr>) items rgba =
     PyArg_ParseTuple_fff_f env items rgba"
  by (simp add: PyArg_ParseTuple_fff_f_def convert_f_renderer)

lemma parse_color_tuple_renderer:
  "parse_color_tuple (env\<lparr>cudaFont_RenderOverlay := r\<rparr>) color = parse_color_tuple env color"
  by (simp add: parse_color_tuple_def PyArg_ParseTuple_fff_f_renderer Let_def
      split: option.splits pyobj.splits)

lemma parse_positional:
  "parse_overlay_args [inp, PyLong w, PyLong h, PyUnicode ''hello''] [] =
     (if INT_MIN \<le> w \<and> w \<le> INT_MAX \<and> INT_MIN \<le> h \<and> h \<le> INT_MAX
      then Some \<lparr>arg_input = inp, arg_width = w, arg_height = h, arg_text = ''hello'',
                 arg_x = 0, arg_y = 0, arg_color = None, arg_output = None\<rparr>
      else None)"
  by (simp add: parse_overlay_args_def keywords_ok_def get_arg_def overlay_kwlist_def
      required_def optional_def convert_O_def)

lemma parse_with_color:
  "parse_overlay_args
     [inp, PyLong 640, PyLong 480, PyUnicode ''hello'', PyLong 8, PyLong 16, c] [] =
     Some \<lparr>arg_input = inp, arg_width = 640, arg_height = 480, arg_text = ''hello'',
           arg_x = 8, arg_y = 16, arg_color = Some c, arg_output = None\<rparr>"
  by (simp add: parse_overlay_args_def keywords_ok_def get_arg_def overlay_kwlist_def
      required_def optional_def convert_O_def INT_MIN_def INT_MAX_def)

lemma parse_overlay_args_output_omitted:
  "parse_overlay_args args kwds = Some a \<Longrightarrow> length args < 8 \<Longrightarrow>
   map_of kwds ''output'' = None \<Longrightarrow> arg_output a = None"
  by (auto simp: parse_overlay_args_def get_arg_def overlay_kwlist_def optional_def Let_def
      split: if_splits bind_splits)

lemma PyFont_Overlay_renders:
  "self = Some s \<Longrightarrow> font s \<noteq> NULL \<Longrightarrow> parse_overlay_args args kwds = Some a \<Longrightarrow>
   parse_color_tuple env (arg_color a) = Inr rgba \<Longrightarrow> 0 < arg_width a \<Longrightarrow> 0 < arg_height a \<Longrightarrow>
   PyCUDA_GetPointer env (arg_input a) = p \<Longrightarrow> p \<noteq> NULL \<Longrightarrow>
   PyCUDA_GetPointer env (case arg_output a of None \<Rightarrow> arg_input a | Some obj \<Rightarrow> obj) = q \<Longrightarrow>
   q \<noteq> NULL \<Longrightarrow>
   PyFont_Overlay env self args kwds tr =
     (Inr PyNone,
      tr @ [RenderOverlay (font s) p q (arg_width a) (arg_height a) (arg_text a) (arg_x a)
              (arg_y a) rgba])"
  by (simp add: PyFont_Overlay_def)

lemma PyFont_Overlay_color_error:
  "self = Some s \<Longrightarrow> font s \<noteq> NULL \<Longrightarrow> parse_overlay_args args kwds = Some a \<Longrightarrow>
   parse_color_tuple env (arg_color a) = Inl e \<Longrightarrow>
   PyFont_Overlay env self args kwds tr = (Inl e, tr)"
  by (simp add: PyFont_Overlay_def)

lemma PyArg_ParseTuple_fff_f_None_iff:
  "(PyArg_ParseTuple_fff_f env items rgba = None) =
     (length items < 3 \<or> 4 < length items \<or> list_ex (\<lambda>obj. convert_f env obj = None) items)"
proof (cases "length items < 3 \<or> 4 < length items")
  case True
  then show ?thesis by (auto simp: PyArg_ParseTuple_fff_f_def)
next
  case False
  then consider "length items = 3" | "length items = 4" by linarith
  then show ?thesis
  proof cases
    case 1
    then obtain a b c where "items = [a, b, c]"
      by (auto simp: length_Suc_conv eval_nat_numeral)
    then show ?thesis
      by (auto simp: PyArg_ParseTuple_fff_f_def split: bind_splits)
  next
    case 2
    then obtain a b c d where "items = [a, b, c, d]"
      by (auto simp: length_Suc_conv eval_nat_numeral)
    then show ?thesis
      by (auto simp: PyArg_ParseTuple_fff_f_def split: bind_splits)
  qed
qed

lemma parse_color_tuple_rejects:
  "isl (parse_color_tuple env color) = color_rejected env color"
proof (cases color)
  case None
  then show ?thesis by (simp add: parse_color_tuple_def color_rejected_def)
next
  case (Some c)
  show ?thesis
  proof (cases c)
    case (PyTuple items)
    have "isl (parse_color_tuple env (Some (PyTuple items))) =
        (PyArg_ParseTuple_fff_f env items (make_float4 (Finite 0) (Finite 0) (Finite 0) (Finite 255)) = None)"
      by (simp add: parse_color_tuple_def split: option.splits)
    with Some PyTuple show ?thesis
      by (simp add: color_rejected_def PyArg_ParseTuple_fff_f_None_iff)
  qed (simp_all add: Some parse_color_tuple_def color_rejected_def)
qed


lemma PyArg_ParseTuple_fff_f_few:
  assumes "length (filter (\<lambda>obj. convert_f env obj \<noteq> None) items) < 3"
  shows "PyArg_ParseTuple_fff_f env items rgba = None"
proof -
  have "length items < 3 \<or> 4 < length items \<or> list_ex (\<lambda>obj. convert_f env obj = None) items"
  proof (rule ccontr)
    assume "\<not> ?thesis"
    then have long: "3 \<le> length items" and "\<forall>obj\<in>set items. convert_f env obj \<noteq> None"
      by (auto simp: list_ex_iff)
    then have "filter (\<lambda>obj. convert_f env obj \<noteq> None) items = items" by simp
    with assms long show False by simp
  qed
  then show ?thesis by (simp add: PyArg_ParseTuple_fff_f_None_iff)
qed


lemma parse_color_tuple_few:
  "length (filter (\<lambda>obj. convert_f env obj \<noteq> None) items) < 3 \<Longrightarrow>
   parse_color_tuple env (Some (PyTuple items)) = Inl Overlay_ColorParseFailed"
  by (simp add: parse_color_tuple_def PyArg_ParseTuple_fff_f_few)

lemma parse_color_tuple_huge:
  "parse_color_tuple working_platform (Some (PyTuple [PyLong huge_int, PyLong 0, PyLong 0])) =
     Inl Overlay_ColorParseFailed"
  by (rule parse_color_tuple_few)
    (simp del: convert_f.simps add: convert_f_working_small convert_f_working_overflow)

subsection \<open>Failure conditions of the overlay\<close>

text \<open>
  Claim C4, as amended: \<^verbatim>\<open>PyFont_Overlay\<close> fails exactly when the object pointer or its
  font is null, the arguments do not parse, a colour argument is rejected (it is not a tuple,
  or not a tuple of three or four items that each convert with \<^verbatim>\<open>"f"\<close>: a float, or an
  integer within the range of a \<^verbatim>\<open>double\<close>), the width or the height is not positive, or
  the data pointer of the input or of the output buffer is null. In every other case it
  returns \<^verbatim>\<open>None\<close>. The result and the trace do not depend on what the renderer returns,
  so no condition the renderer meets on a character or a pixel becomes a failure of the call.
\<close>

theorem overlay_fails_exactly_when:
  "((\<exists>e. fst (PyFont_Overlay env self args kwds tr) = Inl e) =
      (self = None \<or> (\<exists>s. self = Some s \<and> font s = NULL) \<or>
       parse_overlay_args args kwds = None \<or>
       (\<exists>a. parse_overlay_args args kwds = Some a \<and>
          (color_rejected env (arg_color a) \<or> arg_width a \<le> 0 \<or> arg_height a \<le> 0 \<or>
           PyCUDA_GetPointer env (arg_input a) = NULL \<or>
           PyCUDA_GetPointer env
             (case arg_output a of None \<Rightarrow> arg_input a | Some obj \<Rightarrow> obj) = NULL)))) \<and>
   ((\<exists>e. fst (PyFont_Overlay env self args kwds tr) = Inl e) \<or>
      fst (PyFont_Overlay env self args kwds tr) = Inr PyNone) \<and>
   PyFont_Overlay (env\<lparr>cudaFont_RenderOverlay := r\<rparr>) self args kwds tr =
     PyFont_Overlay env self args kwds tr"
  unfolding parse_color_tuple_rejects [symmetric]
  by (auto simp: PyFont_Overlay_def Let_def parse_color_tuple_renderer
      split: option.splits sum.splits if_splits)

theorem overlay_fails_exactly_when_witness:
  "fst (PyFont_Overlay working_platform (Some ready_font)
     [image_buffer, PyLong 640, PyLong 480, PyUnicode ''hello''] [] []) = Inr PyNone \<and>
   fst (PyFont_Overlay working_platform (Some ready_font)
     [image_buffer, PyLong 0, PyLong 480, PyUnicode ''hello''] [] []) =
     Inl Overlay_BadDimensions \<and>
   fst (PyFont_Overlay working_platform (Some ready_font)
     [PyNone, PyLong 640, PyLong 480, PyUnicode ''hello''] [] []) = Inl Overlay_InputPointer \<and>
   color_rejected working_platform (Some (PyTuple [PyLong huge_int, PyLong 0, PyLong 0])) \<and>
   fst (PyFont_Overlay working_platform (Some ready_font)
     [image_buffer, PyLong 640, PyLong 480, PyUnicode ''hello'', PyLong 8, PyLong 16,
      PyTuple [PyLong huge_int, PyLong 0, PyLong 0]] [] []) = Inl Overlay_ColorParseFailed"
proof -
  have i: "PyCUDA_GetPointer working_platform image_buffer \<noteq> NULL"
    by (simp add: GetPointer_image_buffer NULL_def)
  have r: "color_rejected working_platform
      (Some (PyTuple [PyLong huge_int, PyLong 0, PyLong 0]))"
    unfolding parse_color_tuple_rejects [symmetric] by (simp add: parse_color_tuple_huge)
  have h: "fst (PyFont_Overlay working_platform (Some ready_font)
     [image_buffer, PyLong 640, PyLong 480, PyUnicode ''hello'', PyLong 8, PyLong 16,
      PyTuple [PyLong huge_int, PyLong 0, PyLong 0]] [] []) = Inl Overlay_ColorParseFailed"
    by (simp add: PyFont_Overlay_color_error [OF refl font_ready_font parse_with_color]
        parse_color_tuple_huge)
  show ?thesis
    using overlay_fails_exactly_when [of working_platform "Some ready_font"
        "[image_buffer, PyLong 640, PyLong 480, PyUnicode ''hello'']" "[]" "[]"]
      overlay_fails_exactly_when [of working_platform "Some ready_font"
        "[image_buffer, PyLong 0, PyLong 480, PyUnicode ''hello'']" "[]" "[]"]
      overlay_fails_exactly_when [of working_platform "Some ready_font"
        "[PyNone, PyLong 640, PyLong 480, PyUnicode ''hello'']" "[]" "[]"]
      overlay_fails_exactly_when [of working_platform "Some ready_font"
        "[image_buffer, PyLong 640, PyLong 480, PyUnicode ''hello'', PyLong 8, PyLong 16,
          PyTuple [PyLong huge_int, PyLong 0, PyLong 0]]" "[]" "[]"]
      r h
    by (simp add: PyFont_Overlay_def font_ready_font i GetPointer_PyNone parse_positional
        INT_MIN_def INT_MAX_def parse_color_tuple_def)
qed

text \<open>
  Claim C4 as stated fails: with an initialised font, a width of 640 and a height of 480 and
  an input buffer whose pointer is 8192, a call whose colour argument is a string fails with
  the "color argument isn't a valid tuple" error, although none of the three conditions of
  the claim holds.
\<close>

theorem overlay_rejects_bad_color:
  "font ready_font = 512 \<and>
   PyCUDA_GetPointer working_platform image_buffer = 8192 \<and>
   PyFont_Overlay working_platform (Some ready_font)
     [image_buffer, PyLong 640, PyLong 480, PyUnicode ''hello'', PyLong 8, PyLong 16,
      PyUnicode ''red''] [] [] =
     (Inl Overlay_ColorNotTuple, [])"
  by (simp add: font_ready_font GetPointer_image_buffer PyFont_Overlay_def parse_with_color
      parse_color_tuple_def) (simp add: ready_font_def)

subsection \<open>The output buffer\<close>

text \<open>
  Claim C7: when the caller gives no output argument (fewer than eight positional arguments
  and no keyword \<^verbatim>\<open>output\<close>), the output object is the input object: a call that meets
  the other conditions succeeds and hands the renderer the data pointer of the input as
  both its source and its destination.
\<close>

theorem omitted_output_renders_in_place:
  assumes "self = Some s" and "font s \<noteq> NULL"
    and "parse_overlay_args args kwds = Some a"
    and "length args < 8" and "map_of kwds ''output'' = None"
    and "parse_color_tuple env (arg_color a) = Inr rgba"
    and "0 < arg_width a" and "0 < arg_height a"
    and "PyCUDA_GetPointer env (arg_input a) = p" and "p \<noteq> NULL"
  shows "PyFont_Overlay env self args kwds tr =
     (Inr PyNone,
      tr @ [RenderOverlay (font s) p p (arg_width a) (arg_height a) (arg_text a) (arg_x a)
              (arg_y a) rgba])"
proof -
  have "arg_output a = None"
    using assms(3-5) by (rule parse_overlay_args_output_omitted)
  with assms show ?thesis
    by (simp add: PyFont_Overlay_renders)
qed

theorem omitted_output_renders_in_place_witness:
  "font ready_font = 512 \<and>
   parse_overlay_args [image_buffer, PyLong 640, PyLong 480, PyUnicode ''hello''] [] =
     Some \<lparr>arg_input = image_buffer, arg_width = 640, arg_height = 480, arg_text = ''hello'',
           arg_x = 0, arg_y = 0, arg_color = None, arg_output = None\<rparr> \<and>
   PyCUDA_GetPointer working_platform image_buffer = 8192 \<and>
   PyFont_Overlay working_platform (Some ready_font)
     [image_buffer, PyLong 640, PyLong 480, PyUnicode ''hello''] [] [] =
     (Inr PyNone,
      [RenderOverlay 512 8192 8192 640 480 ''hello'' 0 0
         \<lparr>f4_x = Finite 0, f4_y = Finite 0, f4_z = Finite 0, f4_w = Finite 255\<rparr>])"
proof -
  have f: "font ready_font = 512"
    by (simp add: ready_font_def)
  have p: "parse_overlay_args [image_buffer, PyLong 640, PyLong 480, PyUnicode ''hello''] [] =
     Some \<lparr>arg_input = image_buffer, arg_width = 640, arg_height = 480, arg_text = ''hello'',
           arg_x = 0, arg_y = 0, arg_color = None, arg_output = None\<rparr>"
    by (simp add: parse_positional INT_MIN_def INT_MAX_def)
  show ?thesis
    using omitted_output_renders_in_place [OF refl font_ready_font p,
        where rgba = "make_float4 (Finite 0) (Finite 0) (Finite 0) (Finite 255)" and env = working_platform and p = 8192
          and tr = "[]"] p f
    by (simp add: GetPointer_image_buffer NULL_def parse_color_tuple_def make_float4_def)
qed

subsection \<open>The colour argument\<close>



end
